theory Spec2Isabelle
  imports Main "HOL-Library.Multiset"
begin

section \<open>Python values and exceptions\<close>

text \<open>
  Python strings are modelled as \<open>string\<close>: a character is one of the 256 code points
  of Latin-1. All character classes below (\<open>\d\<close>, whitespace, case folding) are the
  restriction of Python's Unicode classes to that range.
\<close>

text \<open>\<open>value_objs.py\<close>, \<open>ColumnType\<close>.\<close>

datatype ColumnType = TEXT | INTEGER | FLOAT | BOOLEAN | DATE

text \<open>\<open>value_objs.py\<close>, the frozen dataclass \<open>Column\<close>.\<close>

record Column =
  name :: string
  type' :: ColumnType

text \<open>
  The exceptions of \<open>exc.py\<close> that the modelled code raises, and the built-in
  exceptions that reach it from the Python run time and the \<open>csv\<close> module.
\<close>

datatype exn =
    TypeError
  | ValueError
  | LookupError
  | StopIteration
  | csv_Error
  | UnconvertableValueException ColumnType string
  | BlankCSVException string
  | TableDefinitionMismatchException
  | OtherException string

text \<open>
  \<open>exc.py\<close>: \<open>UnconvertableValueException.__init__(self, expected_type, string)\<close> has two
  required positional parameters. The argument is the argument list of the call: every
  call with another number of arguments raises \<open>TypeError\<close> in place of building the
  exception.
\<close>

fun new_UnconvertableValueException :: "(ColumnType \<times> string) option \<Rightarrow> exn" where
  "new_UnconvertableValueException (Some (expected_type, string)) =
     UnconvertableValueException expected_type string"
| "new_UnconvertableValueException None = TypeError"

section \<open>String primitives\<close>

text \<open>\<open>str.isspace\<close> on one character: the Unicode whitespace below U+0100.\<close>

definition isspace_char :: "char \<Rightarrow> bool" where
  "isspace_char c \<longleftrightarrow>
     List.member [CHR 0x09, CHR 0x0A, CHR 0x0B, CHR 0x0C, CHR 0x0D, CHR 0x1C, CHR 0x1D,
       CHR 0x1E, CHR 0x1F, CHR 0x20, CHR 0x85, CHR 0xA0] c"

text \<open>\<open>str.isspace\<close>: at least one character, and all of them whitespace.\<close>

definition isspace :: "string \<Rightarrow> bool" where
  "isspace s \<longleftrightarrow> s \<noteq> [] \<and> list_all isspace_char s"

text \<open>\<open>str.strip()\<close> with no argument.\<close>

definition strip :: "string \<Rightarrow> string" where
  "strip s = rev (dropWhile isspace_char (rev (dropWhile isspace_char s)))"

text \<open>\<open>s.replace(",", "")\<close>.\<close>

definition remove_commas :: "string \<Rightarrow> string" where
  "remove_commas s = filter (\<lambda>c. c \<noteq> CHR '','') s"

definition isdigit_char :: "char \<Rightarrow> bool" where
  "isdigit_char c \<longleftrightarrow> List.member ''0123456789'' c"

definition digit_value :: "char \<Rightarrow> nat" where
  "digit_value c = of_char c - 48"

text \<open>The value of a string of decimal digits, most significant first.\<close>

definition digits_value :: "string \<Rightarrow> nat" where
  "digits_value s = foldl (\<lambda>acc c. 10 * acc + digit_value c) 0 s"

text \<open>
  The decimal digits of a non-negative integer, and \<open>str(n)\<close> for a natural number, as
  \<open>str\<close> and f-strings give it.
\<close>

function str_digits :: "int \<Rightarrow> string" where
  "str_digits i =
     (if i < 10 then [char_of (48 + i)] else str_digits (i div 10) @ [char_of (48 + i mod 10)])"
  by pat_completeness auto
termination
  by (relation "measure nat") auto

declare str_digits.simps [simp del]

definition str_nat :: "nat \<Rightarrow> string" where
  "str_nat n = str_digits (int n)"

text \<open>ASCII lower-casing, the case folding of \<open>re.IGNORECASE\<close> on these characters.\<close>

definition lower_char :: "char \<Rightarrow> char" where
  "lower_char c =
     (if List.member ''ABCDEFGHIJKLMNOPQRSTUVWXYZ'' c then char_of (of_char c + (32::nat)) else c)"

section \<open>Regular expressions\<close>

text \<open>
  The patterns of \<open>conv.py\<close> use literals, \<open>\d\<close>, alternation, concatenation, \<open>?\<close>,
  \<open>*\<close>, \<open>+\<close> and \<open>{n}\<close>, between \<open>^\<close> and \<open>$\<close>. Whether \<open>Pattern.match\<close> finds a match
  is membership in the regular language, decided here by derivatives.
\<close>

datatype regex =
    Zero
  | One
  | Chr char
  | Digit
  | Alt regex regex
  | Seq regex regex
  | Star regex

definition Opt :: "regex \<Rightarrow> regex" where
  "Opt r = Alt One r"

definition Plus :: "regex \<Rightarrow> regex" where
  "Plus r = Seq r (Star r)"

fun Times :: "nat \<Rightarrow> regex \<Rightarrow> regex" where
  "Times 0 r = One"
| "Times (Suc n) r = Seq r (Times n r)"

fun Lit :: "string \<Rightarrow> regex" where
  "Lit [] = One"
| "Lit (c # cs) = Seq (Chr c) (Lit cs)"

fun nullable :: "regex \<Rightarrow> bool" where
  "nullable Zero = False"
| "nullable One = True"
| "nullable (Chr c) = False"
| "nullable Digit = False"
| "nullable (Alt r s) = (nullable r \<or> nullable s)"
| "nullable (Seq r s) = (nullable r \<and> nullable s)"
| "nullable (Star r) = True"

text \<open>The first argument is the \<open>re.IGNORECASE\<close> flag.\<close>

fun deriv :: "bool \<Rightarrow> char \<Rightarrow> regex \<Rightarrow> regex" where
  "deriv i c Zero = Zero"
| "deriv i c One = Zero"
| "deriv i c (Chr d) =
     (if (if i then lower_char c = lower_char d else c = d) then One else Zero)"
| "deriv i c Digit = (if isdigit_char c then One else Zero)"
| "deriv i c (Alt r s) = Alt (deriv i c r) (deriv i c s)"
| "deriv i c (Seq r s) =
     (if nullable r then Alt (Seq (deriv i c r) s) (deriv i c s) else Seq (deriv i c r) s)"
| "deriv i c (Star r) = Seq (deriv i c r) (Star r)"

fun fullmatch :: "bool \<Rightarrow> regex \<Rightarrow> string \<Rightarrow> bool" where
  "fullmatch i r [] = nullable r"
| "fullmatch i r (c # cs) = fullmatch i (deriv i c r) cs"

text \<open>
  A compiled pattern \<open>^body$\<close> with its flag. Without \<open>re.MULTILINE\<close>, \<open>$\<close> matches at
  the end of the string and also just before a newline that ends the string.
  \<open>re_match p s\<close> is \<open>p.match(s)\<close>: \<open>None\<close>, or the match object, represented by its
  \<open>group()\<close>. No body in \<open>conv.py\<close> can match a newline, so the group is the string
  itself or the string without its final newline.
\<close>

record Pattern =
  body :: regex
  IGNORECASE :: bool

definition re_match :: "Pattern \<Rightarrow> string \<Rightarrow> string option" where
  "re_match p s =
     (if fullmatch (IGNORECASE p) (body p) s then Some s
      else if s \<noteq> [] \<and> last s = CHR 0x0A \<and> fullmatch (IGNORECASE p) (body p) (butlast s)
        then Some (butlast s)
      else None)"

section \<open>The built-in \<open>int\<close>\<close>

text \<open>
  The built-in \<open>int(s)\<close> on a string, base 10: surrounding whitespace is stripped; then
  an optional sign; then decimal digits, where single underscores may separate digits.
  Anything else raises \<open>ValueError\<close>. (The limit on the number of digits that
  Python 3.11 added is not modelled.)
\<close>

fun digitpart_ok :: "string \<Rightarrow> bool" where
  "digitpart_ok [] = False"
| "digitpart_ok [c] = isdigit_char c"
| "digitpart_ok (c # d # cs) =
     (isdigit_char c \<and> (if d = CHR ''_'' then digitpart_ok cs else digitpart_ok (d # cs)))"

definition digitpart_value :: "string \<Rightarrow> nat" where
  "digitpart_value s = digits_value (filter (\<lambda>c. c \<noteq> CHR ''_'') s)"

text \<open>An optional sign: whether it is \<open>-\<close>, and the rest.\<close>

fun split_sign :: "string \<Rightarrow> bool \<times> string" where
  "split_sign [] = (False, [])"
| "split_sign (c # cs) =
     (if c = CHR ''-'' then (True, cs) else if c = CHR ''+'' then (False, cs) else (False, c # cs))"

definition py_int :: "string \<Rightarrow> exn + int" where
  "py_int s =
     (case split_sign (strip s) of (neg, d) \<Rightarrow>
        if digitpart_ok d
        then Inr (if neg then - int (digitpart_value d) else int (digitpart_value d))
        else Inl ValueError)"

section \<open>The built-in \<open>float\<close>\<close>

text \<open>
  A Python \<open>float\<close> is an IEEE 754 binary64 number. \<open>Finite s m e\<close> is
  \<open>(-1)\<^sup>s * m * 2\<^sup>e\<close> in the encoding's own normal form: \<open>m < 2\<^sup>5\<^sup>3\<close> and
  \<open>-1074 \<le> e \<le> 971\<close>, with \<open>2\<^sup>5\<^sup>2 \<le> m\<close> unless \<open>e = -1074\<close> (zero and the
  subnormal numbers). The sign is \<open>True\<close> for negative.
\<close>

datatype float64 = Finite bool int int | Infinity bool | NaN

text \<open>
  Non-negative rationals are pairs of a numerator and a positive denominator, both of
  type \<open>int\<close>.
  \<open>scale2 a e\<close> is \<open>a / 2\<^sup>e\<close> and \<open>scale10 a p\<close> is \<open>a / 10\<^sup>p\<close>.
\<close>

definition scale2 :: "int \<times> int \<Rightarrow> int \<Rightarrow> int \<times> int" where
  "scale2 a e =
     (case a of (n, d) \<Rightarrow> if 0 \<le> e then (n, d * 2 ^ nat e) else (n * 2 ^ nat (- e), d))"

definition scale10 :: "int \<times> int \<Rightarrow> int \<Rightarrow> int \<times> int" where
  "scale10 a p =
     (case a of (n, d) \<Rightarrow> if 0 \<le> p then (n, d * 10 ^ nat p) else (n * 10 ^ nat (- p), d))"

text \<open>The number of binary and of decimal digits of a positive integer (0 otherwise).\<close>

function bit_length :: "int \<Rightarrow> int" where
  "bit_length n = (if n \<le> 0 then 0 else 1 + bit_length (n div 2))"
  by pat_completeness auto
termination
  by (relation "measure nat") auto

declare bit_length.simps [simp del]

function digit_length :: "int \<Rightarrow> int" where
  "digit_length n = (if n \<le> 0 then 0 else 1 + digit_length (n div 10))"
  by pat_completeness auto
termination
  by (relation "measure nat") auto

declare digit_length.simps [simp del]

text \<open>\<open>\<lfloor>log\<^sub>2 a\<rfloor>\<close> and \<open>\<lfloor>log\<^sub>1\<^sub>0 a\<rfloor>\<close> for a positive rational \<open>a\<close>.\<close>

definition binade :: "int \<times> int \<Rightarrow> int" where
  "binade a =
     (case a of (n, d) \<Rightarrow>
        let k = bit_length n - bit_length d
        in (case scale2 a k of (n', d') \<Rightarrow> if d' \<le> n' then k else k - 1))"

definition decade :: "int \<times> int \<Rightarrow> int" where
  "decade a =
     (case a of (n, d) \<Rightarrow>
        let k = digit_length n - digit_length d
        in (case scale10 a k of (n', d') \<Rightarrow> if d' \<le> n' then k else k - 1))"

text \<open>Rounding to the nearest integer, a tie to the even one.\<close>

definition round_half_even :: "int \<times> int \<Rightarrow> int" where
  "round_half_even a =
     (case a of (n, d) \<Rightarrow>
        let q = n div d; r = n mod d
        in if 2 * r < d then q else if d < 2 * r then q + 1 else if even q then q else q + 1)"

text \<open>
  The binary64 number nearest to a rational (a tie goes to the even significand), with
  the given sign: the rounding of \<open>float(s)\<close> and of a float literal. A magnitude that
  rounds to \<open>2\<^sup>1\<^sup>0\<^sup>2\<^sup>4\<close> or more gives infinity.
\<close>

definition round_binary64 :: "bool \<Rightarrow> int \<times> int \<Rightarrow> float64" where
  "round_binary64 neg a =
     (if fst a = 0 then Finite neg 0 (- 1074)
      else
        let e = max (binade a - 52) (- 1074);
            m = round_half_even (scale2 a e)
        in if m = 2 ^ 53
           then (if 971 < e + 1 then Infinity neg else Finite neg (2 ^ 52) (e + 1))
           else if 971 < e then Infinity neg
           else Finite neg m e)"

text \<open>The rational \<open>digits * 10\<^sup>p\<close>.\<close>

definition decimal :: "int \<Rightarrow> int \<Rightarrow> int \<times> int" where
  "decimal digits p = (if 0 \<le> p then (digits * 10 ^ nat p, 1) else (digits, 10 ^ nat (- p)))"

text \<open>A float literal of the source, such as \<open>3.14\<close> = \<open>float_literal 314 (-2)\<close>.\<close>

definition float_literal :: "int \<Rightarrow> int \<Rightarrow> float64" where
  "float_literal digits p = round_binary64 False (decimal digits p)"

text \<open>
  \<open>float(s)\<close> on a string: surrounding whitespace is stripped; then an optional sign;
  then \<open>inf\<close>, \<open>infinity\<close> or \<open>nan\<close> in any case, or a decimal number: digits with an
  optional point (at least one digit before or after it), single underscores allowed
  between digits, and an optional exponent. Anything else raises \<open>ValueError\<close>.
\<close>

text \<open>The text before the first character that satisfies \<open>P\<close>, and the text after it.\<close>

fun split_at :: "(char \<Rightarrow> bool) \<Rightarrow> string \<Rightarrow> string \<times> string option" where
  "split_at P [] = ([], None)"
| "split_at P (c # cs) =
     (if P c then ([], Some cs)
      else (case split_at P cs of (before, rest) \<Rightarrow> (c # before, rest)))"

definition py_float :: "string \<Rightarrow> exn + float64" where
  "py_float s =
     (case split_sign (strip s) of (neg, u) \<Rightarrow>
        if map lower_char u = ''inf'' \<or> map lower_char u = ''infinity'' then Inr (Infinity neg)
        else if map lower_char u = ''nan'' then Inr NaN
        else
          (case split_at (\<lambda>c. c = CHR ''e'' \<or> c = CHR ''E'') u of (mant, expo) \<Rightarrow>
           case split_at (\<lambda>c. c = CHR ''.'') mant of (ip, frac) \<Rightarrow>
             let fp = (case frac of None \<Rightarrow> [] | Some f \<Rightarrow> f);
                 mant_ok =
                   (case frac of
                      None \<Rightarrow> digitpart_ok ip
                    | Some f \<Rightarrow>
                        (ip = [] \<and> digitpart_ok f) \<or> (digitpart_ok ip \<and> (f = [] \<or> digitpart_ok f)));
                 expo_ok =
                   (case expo of None \<Rightarrow> True | Some x \<Rightarrow> digitpart_ok (snd (split_sign x)));
                 x = (case expo of
                        None \<Rightarrow> 0
                      | Some x \<Rightarrow>
                          (case split_sign x of (xneg, xd) \<Rightarrow>
                             if xneg then - int (digitpart_value xd) else int (digitpart_value xd)));
                 fd = filter (\<lambda>c. c \<noteq> CHR ''_'') fp
             in if mant_ok \<and> expo_ok
                then Inr (round_binary64 neg
                       (decimal (int (digitpart_value (ip @ fd))) (x - int (length fd))))
                else Inl ValueError))"

text \<open>
  \<open>repr\<close> of a float, which \<open>str\<close> returns too: the shortest decimal digit string that
  \<open>float\<close> reads back as the same number, and among those of that length the one nearest
  to the number (a tie to the even digit). \<open>shortest_try m e k\<close> looks among the numbers
  with \<open>k\<close> significant digits: it is enough to try the two that enclose \<open>m * 2\<^sup>e\<close>.
\<close>

definition float_fraction :: "int \<Rightarrow> int \<Rightarrow> int \<times> int" where
  "float_fraction m e = (if 0 \<le> e then (m * 2 ^ nat e, 1) else (m, 2 ^ nat (- e)))"

definition shortest_try :: "int \<Rightarrow> int \<Rightarrow> int \<Rightarrow> (int \<times> int) option" where
  "shortest_try m e k =
     (let v = float_fraction m e;
          p = decade v - k + 1;
          s = scale10 v p;
          lo = fst s div snd s;
          hi = lo + 1;
          r = fst s mod snd s;
          lo_ok = (round_binary64 False (decimal lo p) = Finite False m e);
          hi_ok = (round_binary64 False (decimal hi p) = Finite False m e);
          prefer_lo = (2 * r < snd s \<or> (2 * r = snd s \<and> even lo))
      in if lo_ok \<and> (prefer_lo \<or> \<not> hi_ok) then Some (lo, p)
         else if hi_ok then Some (hi, p)
         else None)"

text \<open>Seventeen significant digits always suffice for a binary64 number.\<close>

fun shortest_from :: "int \<Rightarrow> int \<Rightarrow> int \<Rightarrow> nat \<Rightarrow> (int \<times> int) option" where
  "shortest_from m e k 0 = None"
| "shortest_from m e k (Suc fuel) =
     (case shortest_try m e k of
        Some r \<Rightarrow> Some r
      | None \<Rightarrow> shortest_from m e (k + 1) fuel)"

text \<open>
  The digits without trailing zeros and the position of the decimal point relative to
  their start (\<open>decpt\<close>), laid out as \<open>repr\<close> does: exponent notation when
  \<open>decpt \<le> -4\<close> or \<open>decpt > 16\<close>, positional notation with at least one digit after the
  point otherwise.
\<close>

definition format_repr :: "string \<Rightarrow> int \<Rightarrow> string" where
  "format_repr digits decpt =
     (if decpt \<le> - 4 \<or> 16 < decpt
      then [hd digits] @ (if tl digits = [] then [] else CHR ''.'' # tl digits) @ ''e''
           @ (if decpt - 1 < 0 then ''-'' else ''+'')
           @ (let x = str_digits \<bar>decpt - 1\<bar> in replicate (2 - length x) CHR ''0'' @ x)
      else if decpt \<le> 0 then ''0.'' @ replicate (nat (- decpt)) CHR ''0'' @ digits
      else if int (length digits) \<le> decpt
        then digits @ replicate (nat decpt - length digits) CHR ''0'' @ ''.0''
      else take (nat decpt) digits @ ''.'' @ drop (nat decpt) digits)"

definition float_repr :: "float64 \<Rightarrow> string" where
  "float_repr x =
     (case x of
        NaN \<Rightarrow> ''nan''
      | Infinity neg \<Rightarrow> (if neg then ''-inf'' else ''inf'')
      | Finite neg m e \<Rightarrow>
          (if neg then ''-'' else [])
          @ (if m = 0 then ''0.0''
             else (case shortest_from m e 1 17 of
                     None \<Rightarrow> []
                   | Some (d, p) \<Rightarrow>
                       let all_digits = str_digits d;
                           digits = rev (dropWhile (\<lambda>c. c = CHR ''0'') (rev all_digits))
                       in format_repr digits (int (length all_digits) + p))))"


section \<open>\<open>conv.py\<close>\<close>

definition WHITESPACE_REGEX :: Pattern where
  "WHITESPACE_REGEX = \<lparr>body = Star (Chr CHR '' ''), IGNORECASE = False\<rparr>"

text \<open>
  \<open>sniff_and_allow_blanks\<close>. The first argument is the pattern's \<open>match\<close> method; the
  loop carries the two flags, and \<open>break\<close> leaves it.
\<close>

fun sniff_loop :: "(string \<Rightarrow> 'm option) \<Rightarrow> string list \<Rightarrow> bool \<Rightarrow> bool \<Rightarrow> bool \<times> bool" where
  "sniff_loop regex_match [] non_match one_match = (non_match, one_match)"
| "sniff_loop regex_match (v # values) non_match one_match =
     (if regex_match v \<noteq> None then sniff_loop regex_match values non_match True
      else if re_match WHITESPACE_REGEX v \<noteq> None
        then sniff_loop regex_match values non_match one_match
      else (True, one_match))"

definition sniff_and_allow_blanks :: "(string \<Rightarrow> 'm option) \<Rightarrow> string list \<Rightarrow> bool" where
  "sniff_and_allow_blanks regex_match values =
     (case sniff_loop regex_match values False False of
        (non_match, one_match) \<Rightarrow> (non_match = False) \<and> one_match)"

definition DATE_REGEX :: Pattern where
  "DATE_REGEX =
     \<lparr>body = Seq (Opt (Chr CHR '' '')) (Seq (Times 4 Digit) (Seq (Chr CHR ''-'')
        (Seq (Times 2 Digit) (Seq (Chr CHR ''-'') (Seq (Times 2 Digit) (Opt (Chr CHR '' ''))))))),
      IGNORECASE = False\<rparr>"

definition INTEGER_REGEX :: Pattern where
  "INTEGER_REGEX =
     \<lparr>body = Seq (Opt (Chr CHR '' '')) (Seq (Opt (Chr CHR ''-''))
        (Plus (Alt Digit (Alt (Chr CHR '','') (Chr CHR '' ''))))),
      IGNORECASE = False\<rparr>"

definition FLOAT_REGEX :: Pattern where
  "FLOAT_REGEX =
     \<lparr>body = Seq (Opt (Chr CHR '' '')) (Seq (Opt (Chr CHR ''-''))
        (Plus (Alt Digit (Alt (Chr CHR '','') (Alt (Chr CHR ''.'') (Chr CHR '' '')))))),
      IGNORECASE = False\<rparr>"

definition BOOLEAN_REGEX :: Pattern where
  "BOOLEAN_REGEX =
     \<lparr>body = Seq (Opt (Chr CHR '' ''))
        (Seq (Alt (Lit ''TRUE'') (Alt (Lit ''FALSE'') (Alt (Lit ''T'') (Alt (Lit ''F'')
           (Alt (Lit ''YES'') (Alt (Lit ''NO'') (Alt (Lit ''Y'') (Lit ''N''))))))))
          (Opt (Chr CHR '' ''))),
      IGNORECASE = True\<rparr>"

definition TRUE_REGEX :: Pattern where
  "TRUE_REGEX =
     \<lparr>body = Alt (Lit ''TRUE'') (Alt (Lit ''T'') (Alt (Lit ''YES'') (Lit ''Y''))),
      IGNORECASE = True\<rparr>"

definition FALSE_REGEX :: Pattern where
  "FALSE_REGEX =
     \<lparr>body = Alt (Lit ''FALSE'') (Alt (Lit ''F'') (Alt (Lit ''NO'') (Lit ''N''))),
      IGNORECASE = True\<rparr>"

definition DateConverter_sniff :: "string list \<Rightarrow> bool" where
  "DateConverter_sniff values = sniff_and_allow_blanks (re_match DATE_REGEX) values"

definition IntegerConverter_sniff :: "string list \<Rightarrow> bool" where
  "IntegerConverter_sniff values = sniff_and_allow_blanks (re_match INTEGER_REGEX) values"

definition FloatConverter_sniff :: "string list \<Rightarrow> bool" where
  "FloatConverter_sniff values = sniff_and_allow_blanks (re_match FLOAT_REGEX) values"

definition BooleanConverter_sniff :: "string list \<Rightarrow> bool" where
  "BooleanConverter_sniff values = sniff_and_allow_blanks (re_match BOOLEAN_REGEX) values"


text \<open>\<open>datetime.date\<close>.\<close>

record date =
  year :: nat
  month :: nat
  day :: nat

definition is_leap :: "nat \<Rightarrow> bool" where
  "is_leap y \<longleftrightarrow> y mod 4 = 0 \<and> (y mod 100 \<noteq> 0 \<or> y mod 400 = 0)"

definition days_in_month :: "nat \<Rightarrow> nat \<Rightarrow> nat" where
  "days_in_month y m =
     (if m = 2 then (if is_leap y then 29 else 28)
      else if m = 4 \<or> m = 6 \<or> m = 9 \<or> m = 11 then 30 else 31)"

text \<open>The constructor \<open>date(year, month, day)\<close> and its range checks.\<close>

definition new_date :: "nat \<Rightarrow> nat \<Rightarrow> nat \<Rightarrow> exn + date" where
  "new_date y m d =
     (if 1 \<le> y \<and> y \<le> 9999 \<and> 1 \<le> m \<and> m \<le> 12 \<and> 1 \<le> d \<and> d \<le> days_in_month y m
      then Inr \<lparr>year = y, month = m, day = d\<rparr> else Inl ValueError)"

text \<open>
  \<open>date.fromisoformat\<close> as in Python 3.7 to 3.10: exactly \<open>YYYY-MM-DD\<close> with ASCII
  digits, then the checks of the constructor.
\<close>

definition date_fromisoformat :: "string \<Rightarrow> exn + date" where
  "date_fromisoformat s =
     (if length s = 10 \<and> s ! 4 = CHR ''-'' \<and> s ! 7 = CHR ''-''
         \<and> list_all isdigit_char (take 4 s) \<and> list_all isdigit_char (take 2 (drop 5 s))
         \<and> list_all isdigit_char (drop 8 s)
      then new_date (digits_value (take 4 s)) (digits_value (take 2 (drop 5 s)))
             (digits_value (drop 8 s))
      else Inl ValueError)"

text \<open>
  The \<open>convert\<close> methods. Every \<open>raise exc.UnconvertableValueException()\<close> of \<open>conv.py\<close>
  calls the constructor with no argument.
\<close>

definition DateConverter_convert :: "string \<Rightarrow> exn + date option" where
  "DateConverter_convert value =
     (let stripped = strip value in
      if stripped = [] then Inr None
      else (case date_fromisoformat stripped of
              Inr d \<Rightarrow> Inr (Some d)
            | Inl e \<Rightarrow>
                if e = ValueError then Inl (new_UnconvertableValueException None) else Inl e))"

definition IntegerConverter_convert :: "string \<Rightarrow> exn + int option" where
  "IntegerConverter_convert value =
     (let stripped = strip value in
      if stripped = [] then Inr None
      else (case re_match INTEGER_REGEX value of
              None \<Rightarrow> Inl (new_UnconvertableValueException None)
            | Some matched \<Rightarrow>
                (case py_int (remove_commas matched) of
                   Inl e \<Rightarrow> Inl e
                 | Inr n \<Rightarrow> Inr (Some n))))"

definition FloatConverter_convert :: "string \<Rightarrow> exn + float64 option" where
  "FloatConverter_convert value =
     (let stripped = strip value in
      if stripped = [] then Inr None
      else (case re_match FLOAT_REGEX value of
              None \<Rightarrow> Inl (new_UnconvertableValueException None)
            | Some matched \<Rightarrow>
                (case py_float (remove_commas matched) of
                   Inl e \<Rightarrow> Inl e
                 | Inr x \<Rightarrow> Inr (Some x))))"

definition BooleanConverter_convert :: "string \<Rightarrow> exn + bool option" where
  "BooleanConverter_convert value =
     (let stripped = strip value in
      if stripped = [] then Inr None
      else if re_match FALSE_REGEX stripped \<noteq> None then Inr (Some False)
      else if re_match TRUE_REGEX stripped \<noteq> None then Inr (Some True)
      else Inl (new_UnconvertableValueException None))"


section \<open>\<open>value_objs.py\<close>\<close>

text \<open>\<open>PythonType = Union[int, bool, float, date, str, None]\<close>.\<close>

datatype PythonType =
    PyNone
  | PyInt int
  | PyBool bool
  | PyFloat float64
  | PyDate date
  | PyStr string

text \<open>
  \<open>ColumnType.example\<close>. The float literal \<open>3.14\<close> is the binary64 number nearest to
  314/100, and \<open>date(2018, 1, 3)\<close> passes the range checks of the constructor.
\<close>

fun example :: "ColumnType \<Rightarrow> PythonType" where
  "example TEXT = PyStr ''foo''"
| "example INTEGER = PyInt 1"
| "example FLOAT = PyFloat (float_literal 314 (- 2))"
| "example BOOLEAN = PyBool False"
| "example DATE = PyDate \<lparr>year = 2018, month = 1, day = 3\<rparr>"

text \<open>
  The built-in \<open>str\<close> on the values of \<open>PythonType\<close>: decimal digits for an \<open>int\<close>,
  \<open>True\<close> and \<open>False\<close>, \<open>repr\<close> for a float, \<open>isoformat()\<close> for a date.
\<close>

definition str_int :: "int \<Rightarrow> string" where
  "str_int i = (if i < 0 then CHR ''-'' # str_digits (- i) else str_digits i)"

definition zfill :: "nat \<Rightarrow> string \<Rightarrow> string" where
  "zfill width s = replicate (width - length s) CHR ''0'' @ s"

fun py_str :: "PythonType \<Rightarrow> string" where
  "py_str PyNone = ''None''"
| "py_str (PyInt i) = str_int i"
| "py_str (PyBool b) = (if b then ''True'' else ''False'')"
| "py_str (PyFloat x) = float_repr x"
| "py_str (PyDate d) =
     zfill 4 (str_nat (year d)) @ ''-'' @ zfill 2 (str_nat (month d)) @ ''-''
     @ zfill 2 (str_nat (day d))"
| "py_str (PyStr s) = s"

text \<open>
  The operator \<open>==\<close> on the values of \<open>PythonType\<close>. Numbers (\<open>bool\<close> is a subclass of
  \<open>int\<close>) are compared by their exact values, \<open>M * 2\<^sup>e\<close> here; \<open>nan\<close> equals nothing;
  values of unrelated types are unequal.
\<close>

fun numeric :: "PythonType \<Rightarrow> (int \<times> int) option" where
  "numeric (PyInt i) = Some (i, 0)"
| "numeric (PyBool b) = Some (if b then 1 else 0, 0)"
| "numeric (PyFloat (Finite neg m e)) = Some (if neg then - m else m, e)"
| "numeric v = None"

fun py_eq :: "PythonType \<Rightarrow> PythonType \<Rightarrow> bool" where
  "py_eq PyNone PyNone = True"
| "py_eq (PyStr s) (PyStr t) = (s = t)"
| "py_eq (PyDate d) (PyDate d') = (d = d')"
| "py_eq (PyFloat (Infinity neg)) (PyFloat (Infinity neg')) = (neg = neg')"
| "py_eq v w =
     (case (numeric v, numeric w) of
        (Some (M, e), Some (M', e')) \<Rightarrow>
          M * 2 ^ nat (e - min e e') = M' * 2 ^ nat (e' - min e e')
      | _ \<Rightarrow> False)"

text \<open>
  Modelled from the spec: the function that converts a cell under a column type
  (\<open>convert_cell\<close> of section 6) and the converter of TEXT (section 4.2: the identity; a
  blank string is itself a TEXT value) are not in \<open>conv.py\<close>. For the four other types it
  calls the \<open>convert\<close> method of the type's converter in \<open>conv.py\<close>, whose \<open>None\<close> is the
  blank cell.
\<close>

fun convert_cell :: "ColumnType \<Rightarrow> string \<Rightarrow> exn + PythonType" where
  "convert_cell TEXT s = Inr (PyStr s)"
| "convert_cell INTEGER s =
     (case IntegerConverter_convert s of
        Inl e \<Rightarrow> Inl e | Inr None \<Rightarrow> Inr PyNone | Inr (Some n) \<Rightarrow> Inr (PyInt n))"
| "convert_cell FLOAT s =
     (case FloatConverter_convert s of
        Inl e \<Rightarrow> Inl e | Inr None \<Rightarrow> Inr PyNone | Inr (Some x) \<Rightarrow> Inr (PyFloat x))"
| "convert_cell BOOLEAN s =
     (case BooleanConverter_convert s of
        Inl e \<Rightarrow> Inl e | Inr None \<Rightarrow> Inr PyNone | Inr (Some b) \<Rightarrow> Inr (PyBool b))"
| "convert_cell DATE s =
     (case DateConverter_convert s of
        Inl e \<Rightarrow> Inl e | Inr None \<Rightarrow> Inr PyNone | Inr (Some d) \<Rightarrow> Inr (PyDate d))"

text \<open>
  The dataclass \<open>RowCount\<close>. \<open>best\<close> is \<open>self.exact or self.approx\<close>: the left operand
  is returned when it is truthy, and \<open>None\<close> and \<open>0\<close> are both falsy.
\<close>

record RowCount =
  exact :: "int option"
  approx :: int

definition best :: "RowCount \<Rightarrow> int" where
  "best self =
     (case exact self of
        None \<Rightarrow> approx self
      | Some n \<Rightarrow> if n \<noteq> 0 then n else approx self)"

text \<open>
  The dataclass \<open>KeySet\<close>. It declares no \<open>__post_init__\<close>, so the generated
  constructor stores its arguments as they are; \<open>size\<close> defaults to 10. Annotations are
  not checked at run time.
\<close>

datatype KeySetOp = greater_than | less_than

record KeySet =
  columns :: "Column list"
  values' :: "PythonType list"
  op :: KeySetOp
  size' :: int

definition new_KeySet ::
    "Column list \<Rightarrow> PythonType list \<Rightarrow> KeySetOp \<Rightarrow> int option \<Rightarrow> exn + KeySet" where
  "new_KeySet cs vs operator sz =
     Inr \<lparr>columns = cs, values' = vs, op = operator,
          size' = (case sz of None \<Rightarrow> 10 | Some n \<Rightarrow> n)\<rparr>"

definition ROW_ID_COLUMN :: Column where
  "ROW_ID_COLUMN = \<lparr>name = ''csvbase_row_id'', type' = INTEGER\<rparr>"

section \<open>\<open>streams.py\<close>\<close>

text \<open>
  A seekable stream, as \<open>io.StringIO\<close> and \<open>io.BytesIO\<close> are: the whole content and
  the position of the next read. \<open>read n\<close> returns at most \<open>n\<close> characters from the
  position and advances by what it returned.
\<close>

record stream =
  content :: string
  pos :: nat

definition read :: "nat \<Rightarrow> stream \<Rightarrow> string \<times> stream" where
  "read n s =
     (let buf = take n (drop (pos s) (content s)) in (buf, s\<lparr>pos := pos s + length buf\<rparr>))"

definition seek :: "nat \<Rightarrow> stream \<Rightarrow> stream" where
  "seek offset s = s\<lparr>pos := offset\<rparr>"

definition tell :: "stream \<Rightarrow> nat" where
  "tell s = pos s"

text \<open>Lines with their terminating newline; the first argument is the line so far.\<close>

fun split_lines :: "string \<Rightarrow> string \<Rightarrow> string list" where
  "split_lines line [] = (if line = [] then [] else [line])"
| "split_lines line (c # cs) =
     (if c = CHR 0x0A then (line @ [c]) # split_lines [] cs else split_lines (line @ [c]) cs)"

definition readlines :: "stream \<Rightarrow> string list \<times> stream" where
  "readlines s =
     (let rest = drop (pos s) (content s)
      in (split_lines [] rest, s\<lparr>pos := pos s + length rest\<rparr>))"

text \<open>
  \<open>with rewind(stream): block\<close>. \<open>__enter__\<close> does nothing. \<open>__exit__\<close> runs
  \<open>stream.seek(0)\<close> when the block returns and when it raises, and returns \<open>None\<close>, so
  that an exception of the block propagates.
\<close>

definition rewind ::
    "(stream \<Rightarrow> (exn + 'a) \<times> stream) \<Rightarrow> stream \<Rightarrow> (exn + 'a) \<times> stream" where
  "rewind block stream = (case block stream of (r, stream') \<Rightarrow> (r, seek 0 stream'))"

text \<open>
  \<open>cchardet.UniversalDetector\<close> is a parameter: its state after construction, \<open>feed\<close>
  (which may raise), the attribute \<open>done\<close> and \<open>result["encoding"]\<close>.
\<close>

record 'd UniversalDetector =
  new_detector :: 'd
  feed :: "'d \<Rightarrow> string \<Rightarrow> exn + 'd"
  detector_done :: "'d \<Rightarrow> bool"
  result_encoding :: "'d \<Rightarrow> string option"

text \<open>
  The loop of \<open>byte_buf_to_str_buf\<close> over the lines that \<open>readlines()\<close> returned.
  \<open>readlines()\<close> has read the whole stream before the loop starts, so
  \<open>byte_buf.tell()\<close> is the same number \<open>told\<close> in every iteration.
\<close>

fun feed_lines :: "'d UniversalDetector \<Rightarrow> nat \<Rightarrow> 'd \<Rightarrow> string list \<Rightarrow> exn + 'd" where
  "feed_lines detector told d [] = Inr d"
| "feed_lines detector told d (line # lines) =
     (case feed detector d line of
        Inl e \<Rightarrow> Inl e
      | Inr d' \<Rightarrow>
          if detector_done detector d' then Inr d'
          else if 1000000 < told then Inr d'
          else feed_lines detector told d' lines)"

text \<open>
  \<open>byte_buf_to_str_buf\<close>. \<open>getreader\<close> is \<open>codecs.getreader\<close>, which raises
  \<open>LookupError\<close> on an encoding it does not know; the result \<open>Reader(byte_buf)\<close> is the
  reader class together with the stream it wraps.
\<close>

definition byte_buf_to_str_buf ::
    "'d UniversalDetector \<Rightarrow> (string \<Rightarrow> exn + 'r) \<Rightarrow> stream \<Rightarrow> (exn + 'r) \<times> stream" where
  "byte_buf_to_str_buf detector getreader byte_buf =
     (case rewind (\<lambda>s. case readlines s of (lines, s1) \<Rightarrow>
               (feed_lines detector (tell s1) (new_detector detector) lines, s1)) byte_buf of
        (Inl e, s2) \<Rightarrow> (Inl e, s2)
      | (Inr d, s2) \<Rightarrow>
          let encoding = (case result_encoding detector d of Some enc \<Rightarrow> enc | None \<Rightarrow> ''utf-8'')
          in (getreader encoding, s2))"

text \<open>\<open>csv.Dialect\<close> and the dialect \<open>csv.excel\<close>; \<open>quoting = 0\<close> is \<open>QUOTE_MINIMAL\<close>.\<close>

record Dialect =
  delimiter :: char
  quotechar :: "char option"
  escapechar :: "char option"
  doublequote :: bool
  skipinitialspace :: bool
  lineterminator :: string
  quoting :: nat

definition excel :: Dialect where
  "excel = \<lparr>delimiter = CHR '','', quotechar = Some (CHR 0x22), escapechar = None,
     doublequote = True, skipinitialspace = False, lineterminator = [CHR 0x0D, CHR 0x0A],
     quoting = 0\<rparr>"

text \<open>
  The \<open>csv\<close> module of the standard library is a parameter.
  \<open>Sniffer_sniff sample\<close> is \<open>csv.Sniffer().sniff(sample)\<close>.
  \<open>reader dialect text\<close> lists what the successive \<open>next\<close> calls on
  \<open>csv.reader(csv_buf, dialect)\<close> give when \<open>text\<close> is what remains to be read from
  \<open>csv_buf\<close>: a row, or the exception that the call raises; after the last one, \<open>next\<close>
  raises \<open>StopIteration\<close>. \<open>reader_tell dialect text n\<close> is how far the reader has
  moved the stream after \<open>n\<close> calls.
\<close>

record csv_module =
  Sniffer_sniff :: "string \<Rightarrow> exn + Dialect"
  reader :: "Dialect \<Rightarrow> string \<Rightarrow> (exn + string list) list"
  reader_tell :: "Dialect \<Rightarrow> string \<Rightarrow> nat \<Rightarrow> nat"

definition sniff_csv :: "csv_module \<Rightarrow> stream \<Rightarrow> nat \<Rightarrow> (exn + Dialect) \<times> stream" where
  "sniff_csv csv csv_buf sample_size_hint =
     rewind (\<lambda>s. case read sample_size_hint s of (sample, s1) \<Rightarrow>
       (case Sniffer_sniff csv sample of
          Inr dialect \<Rightarrow> (Inr dialect, s1)
        | Inl e \<Rightarrow> if e = csv_Error then (Inr excel, s1) else (Inl e, s1))) csv_buf"

text \<open>\<open>next(reader)\<close>: the row and what the reader still has to give.\<close>

fun next_row :: "(exn + string list) list \<Rightarrow> exn + (string list \<times> (exn + string list) list)" where
  "next_row [] = Inl StopIteration"
| "next_row (Inl e # rest) = Inl e"
| "next_row (Inr row # rest) = Inr (row, rest)"

text \<open>\<open>[header or f"col{i}" for i, header in enumerate(row, start=1)]\<close>.\<close>

definition headers_of :: "string list \<Rightarrow> string list" where
  "headers_of row =
     map (\<lambda>(i, header). if header = [] then ''col'' @ str_nat i else header)
       (zip [1..<Suc (length row)] row)"

text \<open>
  A \<open>dict\<close>, as the list of its items in insertion order: storing under a key that is
  present replaces the value and keeps the key's place.
\<close>

fun dict_set :: "('k \<times> 'v) list \<Rightarrow> 'k \<Rightarrow> 'v \<Rightarrow> ('k \<times> 'v) list" where
  "dict_set [] k v = [(k, v)]"
| "dict_set ((k', v') # items) k v =
     (if k' = k then (k, v) # items else (k', v') # dict_set items k v)"

definition dict_of :: "('k \<times> 'v) list \<Rightarrow> ('k \<times> 'v) list" where
  "dict_of pairs = foldl (\<lambda>d (k, v). dict_set d k v) [] pairs"

text \<open>The loop over the headers when \<open>existing_columns\<close> is given.\<close>

fun existing_loop ::
    "(string \<times> Column) list \<Rightarrow> string list \<Rightarrow> Column list \<Rightarrow> exn + Column list" where
  "existing_loop existing_map [] columns' = Inr columns'"
| "existing_loop existing_map (header # headers) columns' =
     (case map_of existing_map header of
        None \<Rightarrow> Inl TableDefinitionMismatchException
      | Some c \<Rightarrow> existing_loop existing_map headers (columns' @ [c]))"

text \<open>
  \<open>(row for row, _ in zip(reader, range(n)))\<close>. \<open>zip\<close> asks the reader first: once the
  range is used up, one more row is requested, and dropped if there is one.
\<close>

fun first_rows :: "nat \<Rightarrow> (exn + string list) list \<Rightarrow> exn + string list list" where
  "first_rows n [] = Inr []"
| "first_rows n (Inl e # rest) = Inl e"
| "first_rows 0 (Inr row # rest) = Inr []"
| "first_rows (Suc n) (Inr row # rest) =
     (case first_rows n rest of Inl e \<Rightarrow> Inl e | Inr rows \<Rightarrow> Inr (row # rows))"

text \<open>The number of \<open>next\<close> calls that \<open>first_rows\<close> makes on the reader.\<close>

fun first_rows_calls :: "nat \<Rightarrow> (exn + string list) list \<Rightarrow> nat" where
  "first_rows_calls n [] = 1"
| "first_rows_calls n (Inl e # rest) = 1"
| "first_rows_calls 0 (Inr row # rest) = 1"
| "first_rows_calls (Suc n) (Inr row # rest) = Suc (first_rows_calls n rest)"

text \<open>\<open>zip(*rows)\<close>: the columns, as many as the shortest row has cells.\<close>

definition zip_star :: "'a list list \<Rightarrow> 'a list list" where
  "zip_star rows =
     (if rows = [] then []
      else map (\<lambda>i. map (\<lambda>row. row ! i) rows) [0..<Min (set (map length rows))])"

text \<open>
  \<open>set(v)\<close>, as a list of the distinct elements. Python does not specify the order in
  which a set is iterated; the sniffers do not depend on it
  (\<open>sniff_and_allow_blanks_cong_set\<close> below).
\<close>

definition py_set :: "string list \<Rightarrow> string list" where
  "py_set v = remdups v"

text \<open>The body of the loop over \<open>as_dict.items()\<close>, and the loop.\<close>

definition infer_column :: "string \<Rightarrow> string list \<Rightarrow> Column" where
  "infer_column key vals =
     (if key = ''csvbase_row_id'' \<or> IntegerConverter_sniff vals
        then \<lparr>name = key, type' = INTEGER\<rparr>
      else if FloatConverter_sniff vals then \<lparr>name = key, type' = FLOAT\<rparr>
      else if BooleanConverter_sniff vals then \<lparr>name = key, type' = BOOLEAN\<rparr>
      else if DateConverter_sniff vals then \<lparr>name = key, type' = DATE\<rparr>
      else \<lparr>name = key, type' = TEXT\<rparr>)"

definition infer_columns :: "(string \<times> string list) list \<Rightarrow> Column list" where
  "infer_columns as_dict = map (\<lambda>(key, vals). infer_column key vals) as_dict"

text \<open>The first \<open>with\<close> block of \<open>peek_csv\<close>.\<close>

definition blank_check :: "stream \<Rightarrow> (exn + unit) \<times> stream" where
  "blank_check s =
     (case read 2048 s of (buf, s1) \<Rightarrow>
        if length buf = 0 \<or> isspace buf then (Inl (BlankCSVException ''blank csv file!''), s1)
        else (Inr (), s1))"

text \<open>The second \<open>with\<close> block of \<open>peek_csv\<close>.\<close>

definition peek_body ::
    "csv_module \<Rightarrow> Column list option \<Rightarrow> stream \<Rightarrow> (exn + Dialect \<times> Column list) \<times> stream" where
  "peek_body csv existing_columns s =
     (case sniff_csv csv s 8192 of
        (Inl e, s1) \<Rightarrow> (Inl e, s1)
      | (Inr dialect, s1) \<Rightarrow>
          let text = drop (pos s1) (content s1);
              after = (\<lambda>n. s1\<lparr>pos := pos s1 + reader_tell csv dialect text n\<rparr>)
          in (case next_row (reader csv dialect text) of
                Inl e \<Rightarrow> (Inl e, after 1)
              | Inr (header_row, rest) \<Rightarrow>
                  let headers = headers_of header_row
                  in (case existing_columns of
                        Some ecs \<Rightarrow>
                          (case existing_loop (dict_of (map (\<lambda>c. (name c, c)) ecs)) headers [] of
                             Inl e \<Rightarrow> (Inl e, after 1)
                           | Inr columns' \<Rightarrow> (Inr (dialect, columns'), after 1))
                      | None \<Rightarrow>
                          let after_rows = after (1 + first_rows_calls 1000 rest)
                          in (case first_rows 1000 rest of
                                Inl e \<Rightarrow> (Inl e, after_rows)
                              | Inr rows \<Rightarrow>
                                  let first_few = zip_star rows;
                                      as_dict = dict_of (zip headers (map py_set first_few))
                                  in (Inr (dialect, infer_columns as_dict), after_rows)))))"

definition peek_csv ::
    "csv_module \<Rightarrow> stream \<Rightarrow> Column list option \<Rightarrow> (exn + Dialect \<times> Column list) \<times> stream" where
  "peek_csv csv csv_buf existing_columns =
     (case rewind blank_check csv_buf of
        (Inl e, s1) \<Rightarrow> (Inl e, s1)
      | (Inr u, s1) \<Rightarrow> rewind (peek_body csv existing_columns) s1)"

text \<open>
  The rule of the specification for a fresh table, in its words: the reserved row-id
  column name is always INTEGER; otherwise the first type in the order INTEGER, FLOAT,
  BOOLEAN, DATE whose sniffer returns true; TEXT if none does.
\<close>

fun sniffer_of :: "ColumnType \<Rightarrow> string list \<Rightarrow> bool" where
  "sniffer_of INTEGER = IntegerConverter_sniff"
| "sniffer_of FLOAT = FloatConverter_sniff"
| "sniffer_of BOOLEAN = BooleanConverter_sniff"
| "sniffer_of DATE = DateConverter_sniff"
| "sniffer_of TEXT = (\<lambda>vals. True)"

definition first_sniffed :: "string list \<Rightarrow> ColumnType" where
  "first_sniffed vals =
     (case find (\<lambda>t. sniffer_of t vals) [INTEGER, FLOAT, BOOLEAN, DATE] of
        Some t \<Rightarrow> t
      | None \<Rightarrow> TEXT)"

definition specified_type :: "string \<Rightarrow> string list \<Rightarrow> ColumnType" where
  "specified_type key vals = (if key = ''csvbase_row_id'' then INTEGER else first_sniffed vals)"

section \<open>Properties of \<open>conv.py\<close>\<close>

lemma sniff_loop_non_match:
  "fst (sniff_loop m vs nm om) \<longleftrightarrow>
     nm \<or> (\<exists>v\<in>set vs. m v = None \<and> re_match WHITESPACE_REGEX v = None)"
  by (induction vs arbitrary: nm om) auto

lemma sniff_loop_one_match:
  "\<not> fst (sniff_loop m vs nm om) \<Longrightarrow>
     snd (sniff_loop m vs nm om) \<longleftrightarrow> om \<or> (\<exists>v\<in>set vs. m v \<noteq> None)"
  by (induction vs arbitrary: nm om) (auto split: if_splits)

lemma sniff_and_allow_blanks_iff:
  "sniff_and_allow_blanks m vs \<longleftrightarrow>
     (\<exists>v\<in>set vs. m v \<noteq> None) \<and>
     (\<forall>v\<in>set vs. m v \<noteq> None \<or> re_match WHITESPACE_REGEX v \<noteq> None)"
  using sniff_loop_non_match[of m vs False False] sniff_loop_one_match[of m vs False False]
  by (auto simp: sniff_and_allow_blanks_def split: prod.splits)

text \<open>The result depends on the set of values only, not on the order of iteration.\<close>

lemma sniff_and_allow_blanks_cong_set:
  "set vs = set ws \<Longrightarrow> sniff_and_allow_blanks m vs = sniff_and_allow_blanks m ws"
  by (simp add: sniff_and_allow_blanks_iff)

text \<open>
  Claim C1, as the code has it. \<open>sniff_and_allow_blanks\<close> returns true exactly when at
  least one value matches the pattern and no value fails both the pattern and the blank
  test \<open>WHITESPACE_REGEX\<close>. The pattern is tried before the blank test, so a blank value
  that the pattern matches counts as a match: the result is false for every sequence in
  which no value matches the pattern, in particular for a sequence of whitespace-only
  strings none of which the pattern matches.
\<close>

theorem sniff_and_allow_blanks_spec:
  "(sniff_and_allow_blanks regex_match vs \<longleftrightarrow>
      (\<exists>v\<in>set vs. regex_match v \<noteq> None) \<and>
      \<not> (\<exists>v\<in>set vs. regex_match v = None \<and> re_match WHITESPACE_REGEX v = None))
   \<and> ((\<forall>v\<in>set vs. regex_match v = None) \<longrightarrow> \<not> sniff_and_allow_blanks regex_match vs)"
  by (auto simp: sniff_and_allow_blanks_iff)

theorem sniff_and_allow_blanks_spec_witness:
  "sniff_and_allow_blanks (re_match INTEGER_REGEX) [''1'', '''', ''2''] = True
   \<and> sniff_and_allow_blanks (re_match DATE_REGEX) ['' '', ''''] = False"
  using sniff_and_allow_blanks_spec[of "re_match INTEGER_REGEX" "[''1'', '''', ''2'']"]
        sniff_and_allow_blanks_spec[of "re_match DATE_REGEX" "['' '', '''']"]
  by code_simp

text \<open>
  The claim as stated fails: the single value \<open>" "\<close> is whitespace only, and
  \<open>INTEGER_REGEX\<close> matches it (through its \<open>(\d|,| )+\<close>), so the column is sniffed as
  an integer column.
\<close>

theorem sniff_and_allow_blanks_blank_counterexample:
  "list_all isspace_char '' '' \<and> re_match WHITESPACE_REGEX '' '' \<noteq> None
   \<and> sniff_and_allow_blanks (re_match INTEGER_REGEX) ['' ''] = True"
  by code_simp

lemma py_int_error: "py_int s = Inl e \<Longrightarrow> e = ValueError"
  by (auto simp: py_int_def split: prod.splits if_splits)

lemma py_float_error: "py_float s = Inl e \<Longrightarrow> e = ValueError"
  by (auto simp: py_float_def Let_def split: prod.splits if_splits)

text \<open>
  Claim C2 at inputs where it fails, all with a non-empty stripped form. \<open>"1 2"\<close> and
  \<open>"1.2.3"\<close> pass the sniff patterns and \<open>int\<close> and \<open>float\<close> reject them: the
  \<open>ValueError\<close> escapes, since \<open>convert\<close> does not catch it. \<open>"abc"\<close> fails the pattern:
  the \<open>raise\<close> calls the exception's constructor without its two required arguments, and
  \<open>TypeError\<close> escapes. No input at all makes either converter raise
  \<open>UnconvertableValueException\<close>.
\<close>

theorem convert_escaping_errors:
  "IntegerConverter_convert ''1 2'' = Inl ValueError
   \<and> IntegerConverter_convert ''abc'' = Inl TypeError
   \<and> FloatConverter_convert ''1.2.3'' = Inl ValueError
   \<and> FloatConverter_convert ''abc'' = Inl TypeError
   \<and> (\<forall>v t s. IntegerConverter_convert v \<noteq> Inl (UnconvertableValueException t s))
   \<and> (\<forall>v t s. FloatConverter_convert v \<noteq> Inl (UnconvertableValueException t s))"
proof -
  have 1: "IntegerConverter_convert ''1 2'' = Inl ValueError" by code_simp
  have 2: "IntegerConverter_convert ''abc'' = Inl TypeError" by code_simp
  have 3: "FloatConverter_convert ''1.2.3'' = Inl ValueError" by code_simp
  have 4: "FloatConverter_convert ''abc'' = Inl TypeError" by code_simp
  have 5: "IntegerConverter_convert v \<noteq> Inl (UnconvertableValueException t s)" for v t s
    by (auto simp: IntegerConverter_convert_def Let_def dest: py_int_error
        split: option.splits sum.splits)
  have 6: "FloatConverter_convert v \<noteq> Inl (UnconvertableValueException t s)" for v t s
    by (auto simp: FloatConverter_convert_def Let_def dest: py_float_error
        split: option.splits sum.splits)
  from 1 2 3 4 5 6 show ?thesis by blast
qed

lemma str_example_float: "py_str (example FLOAT) = ''3.14''"
  by code_simp

lemma convert_float_314: "convert_cell FLOAT ''3.14'' = Inr (example FLOAT)"
  by code_simp

lemma py_eq_example: "py_eq (example t) (example t)"
proof (cases t)
  case TEXT
  then show ?thesis by simp
next
  case INTEGER
  then show ?thesis by simp
next
  case FLOAT
  have "py_eq (example FLOAT) (example FLOAT)" by code_simp
  with FLOAT show ?thesis by simp
next
  case BOOLEAN
  then show ?thesis by simp
next
  case DATE
  then show ?thesis by simp
qed

text \<open>
  Claim C7. For every column type, converting the string form of the type's example value
  succeeds and gives a value that is \<open>==\<close> to the example value (it is the same value):
  \<open>1\<close>, \<open>3.14\<close>, \<open>False\<close>, \<open>2018-01-03\<close> and \<open>"foo"\<close>.
\<close>

theorem example_round_trip:
  "\<exists>v. convert_cell t (py_str (example t)) = Inr v \<and> py_eq v (example t) \<and> v = example t"
proof -
  have "convert_cell t (py_str (example t)) = Inr (example t)"
  proof (cases t)
    case TEXT
    then show ?thesis by simp
  next
    case INTEGER
    have "convert_cell INTEGER (py_str (example INTEGER)) = Inr (example INTEGER)"
      by code_simp
    with INTEGER show ?thesis by simp
  next
    case FLOAT
    then show ?thesis by (simp only: str_example_float convert_float_314)
  next
    case BOOLEAN
    have "convert_cell BOOLEAN (py_str (example BOOLEAN)) = Inr (example BOOLEAN)"
      by code_simp
    with BOOLEAN show ?thesis by simp
  next
    case DATE
    have "convert_cell DATE (py_str (example DATE)) = Inr (example DATE)"
      by code_simp
    with DATE show ?thesis by simp
  qed
  then show ?thesis using py_eq_example[of t] by blast
qed

section \<open>Properties of \<open>streams.py\<close>\<close>

lemma rewind_pos: "pos (snd (rewind block s)) = 0"
  by (simp add: rewind_def seek_def split: prod.splits)

lemma rewind_blank_check:
  "rewind blank_check s =
     (if list_all isspace_char (take 2048 (drop (pos s) (content s)))
      then Inl (BlankCSVException ''blank csv file!'') else Inr (), s\<lparr>pos := 0\<rparr>)"
  by (auto simp: rewind_def blank_check_def read_def Let_def isspace_def seek_def)

lemma peek_csv_pos: "pos (snd (peek_csv csv s ex)) = 0"
  by (simp add: peek_csv_def rewind_blank_check rewind_pos)

lemma byte_buf_to_str_buf_pos: "pos (snd (byte_buf_to_str_buf det gr s)) = 0"
proof -
  let ?w = "rewind (\<lambda>s. case readlines s of (lines, s1) \<Rightarrow>
               (feed_lines det (tell s1) (new_detector det) lines, s1)) s"
  have "pos (snd ?w) = 0" by (rule rewind_pos)
  then show ?thesis
    by (cases ?w) (auto simp: byte_buf_to_str_buf_def Let_def split: sum.splits)
qed

lemma map_of_dict_set: "map_of (dict_set d k v) = (map_of d)(k \<mapsto> v)"
  by (induction d) (auto simp: fun_eq_iff)

lemma keys_dict_set:
  "map fst (dict_set d k v) = (if k \<in> fst ` set d then map fst d else map fst d @ [k])"
  by (induction d) force+

lemma foldl_dict_set_map_of:
  "map_of (foldl (\<lambda>d (k, v). dict_set d k v) d ps) = map_of d ++ map_of (rev ps)"
  by (induction ps arbitrary: d) (auto simp: map_of_dict_set map_add_def fun_eq_iff split: option.splits)

lemma map_of_dict_of: "map_of (dict_of ps) = map_of (rev ps)"
  by (simp add: dict_of_def foldl_dict_set_map_of)

lemma foldl_dict_set_keys:
  "set (map fst (foldl (\<lambda>d (k, v). dict_set d k v) d ps)) = set (map fst d) \<union> set (map fst ps)"
proof (induction ps arbitrary: d)
  case Nil
  then show ?case by simp
next
  case (Cons p ps)
  obtain k v where p: "p = (k, v)" by (cases p)
  have "set (map fst (dict_set d k v)) = insert k (set (map fst d))"
    unfolding keys_dict_set by auto
  with Cons[of "dict_set d k v"] show ?case
    by (simp add: p del: set_map)
qed

lemma foldl_dict_set_distinct:
  "distinct (map fst d) \<Longrightarrow> distinct (map fst (foldl (\<lambda>d (k, v). dict_set d k v) d ps))"
proof (induction ps arbitrary: d)
  case Nil
  then show ?case by simp
next
  case (Cons p ps)
  obtain k v where p: "p = (k, v)" by (cases p)
  have "distinct (map fst (dict_set d k v))"
    unfolding keys_dict_set using Cons.prems by auto
  from Cons.IH[OF this] show ?case by (simp add: p)
qed

lemma keys_dict_of: "set (map fst (dict_of ps)) = set (map fst ps)"
  unfolding dict_of_def foldl_dict_set_keys by simp

lemma distinct_dict_of: "distinct (map fst (dict_of ps))"
  by (simp add: dict_of_def foldl_dict_set_distinct)

lemma existing_loop_eq:
  "existing_loop m hs acc =
     (if \<forall>h\<in>set hs. map_of m h \<noteq> None then Inr (acc @ map (\<lambda>h. the (map_of m h)) hs)
      else Inl TableDefinitionMismatchException)"
  by (induction hs arbitrary: acc) (auto split: option.splits)

lemma existing_map_lookup:
  "map_of (dict_of (map (\<lambda>c. (name c, c)) ecs)) h =
     (if h \<in> name ` set ecs then Some (last (filter (\<lambda>c. name c = h) ecs)) else None)"
proof (induction ecs rule: rev_induct)
  case Nil
  then show ?case by (simp add: map_of_dict_of)
next
  case (snoc c ecs)
  then show ?case by (auto simp: map_of_dict_of rev_map)
qed

lemma sniff_csv_snd: "snd (sniff_csv csv s n) = s\<lparr>pos := 0\<rparr>"
  by (simp add: sniff_csv_def rewind_def read_def Let_def seek_def split: sum.splits prod.splits)

lemma peek_body_snd: "\<exists>p. snd (peek_body csv ex s) = s\<lparr>pos := p\<rparr>"
proof -
  obtain r where r: "sniff_csv csv s 8192 = (r, s\<lparr>pos := 0\<rparr>)"
    using sniff_csv_snd[of csv s 8192] by (cases "sniff_csv csv s 8192") simp
  show ?thesis
    unfolding peek_body_def r
    by (auto simp: Let_def split: sum.splits option.splits prod.splits)
qed

lemma peek_csv_snd: "snd (peek_csv csv s ex) = s\<lparr>pos := 0\<rparr>"
proof -
  obtain p where "snd (peek_body csv ex (s\<lparr>pos := 0\<rparr>)) = s\<lparr>pos := p\<rparr>"
    using peek_body_snd[of csv ex "s\<lparr>pos := 0\<rparr>"] by auto
  then have "snd (rewind (peek_body csv ex) (s\<lparr>pos := 0\<rparr>)) = s\<lparr>pos := 0\<rparr>"
    by (cases "peek_body csv ex (s\<lparr>pos := 0\<rparr>)") (simp add: rewind_def seek_def)
  then show ?thesis
    unfolding peek_csv_def rewind_blank_check
    by (cases "list_all isspace_char (take 2048 (drop (pos s) (content s)))") simp_all
qed

lemma peek_csv_fst:
  assumes "\<not> list_all isspace_char (take 2048 (drop (pos s) (content s)))"
    and "fst (sniff_csv csv (s\<lparr>pos := 0\<rparr>) 8192) = Inr dialect"
    and "reader csv dialect (content s) = Inr header_row # rest"
  shows "fst (peek_csv csv s ex) =
     (case ex of
        Some ecs \<Rightarrow>
          (case existing_loop (dict_of (map (\<lambda>c. (name c, c)) ecs)) (headers_of header_row) [] of
             Inl e \<Rightarrow> Inl e
           | Inr cs \<Rightarrow> Inr (dialect, cs))
      | None \<Rightarrow>
          (case first_rows 1000 rest of
             Inl e \<Rightarrow> Inl e
           | Inr rows \<Rightarrow>
               Inr (dialect, infer_columns
                 (dict_of (zip (headers_of header_row) (map py_set (zip_star rows)))))))"
    (is "_ = ?rhs")
proof -
  have r: "sniff_csv csv (s\<lparr>pos := 0\<rparr>) 8192 = (Inr dialect, s\<lparr>pos := 0\<rparr>)"
    using sniff_csv_snd[of csv "s\<lparr>pos := 0\<rparr>" 8192] assms(2)
    by (cases "sniff_csv csv (s\<lparr>pos := 0\<rparr>) 8192") simp
  have "fst (peek_csv csv s ex) = fst (peek_body csv ex (s\<lparr>pos := 0\<rparr>))"
    unfolding peek_csv_def rewind_blank_check using assms(1)
    by (simp add: rewind_def split: prod.splits)
  also have "\<dots> = ?rhs"
    unfolding peek_body_def r using assms(3)
    by (cases ex) (simp_all add: Let_def split: sum.splits)
  finally show ?thesis .
qed

text \<open>
  Claim C5. When the 2048 characters that \<open>peek_csv\<close> reads first (the first 2 KiB of a
  stream that stands at its start) are all whitespace, or there are none, \<open>peek_csv\<close>
  raises \<open>BlankCSVException\<close> and leaves the stream at position 0. The result is the
  same for every \<open>csv\<close> module and every \<open>existing_columns\<close>: neither the dialect
  sniffer nor the reader takes part in it.
\<close>

theorem peek_csv_blank:
  "list_all isspace_char (take 2048 (drop (pos s) (content s))) \<Longrightarrow>
   peek_csv csv s existing_columns =
     (Inl (BlankCSVException ''blank csv file!''), s\<lparr>pos := 0\<rparr>)"
  by (simp add: peek_csv_def rewind_blank_check)

theorem peek_csv_blank_witness:
  "peek_csv \<lparr>Sniffer_sniff = (\<lambda>sample. Inl (OtherException ''sniff'')),
             reader = (\<lambda>dialect text. [Inl (OtherException ''reader'')]),
             reader_tell = (\<lambda>dialect text n. n)\<rparr>
     \<lparr>content = [], pos = 0\<rparr> None =
     (Inl (BlankCSVException ''blank csv file!''), \<lparr>content = [], pos = 0\<rparr>)
   \<and> peek_csv \<lparr>Sniffer_sniff = (\<lambda>sample. Inl (OtherException ''sniff'')),
             reader = (\<lambda>dialect text. [Inl (OtherException ''reader'')]),
             reader_tell = (\<lambda>dialect text n. n)\<rparr>
     \<lparr>content = [CHR '' '', CHR 0x0A, CHR 0x09], pos = 0\<rparr> None =
     (Inl (BlankCSVException ''blank csv file!''),
      \<lparr>content = [CHR '' '', CHR 0x0A, CHR 0x09], pos = 0\<rparr>)"
proof -
  have a: "list_all isspace_char
      (take 2048 (drop (pos \<lparr>content = [], pos = 0\<rparr>) (content \<lparr>content = [], pos = 0\<rparr>)))"
    by simp
  have b: "list_all isspace_char
      (take 2048 (drop (pos \<lparr>content = [CHR '' '', CHR 0x0A, CHR 0x09], pos = 0\<rparr>)
         (content \<lparr>content = [CHR '' '', CHR 0x0A, CHR 0x09], pos = 0\<rparr>)))"
    by (simp add: isspace_char_def)
  show ?thesis
    using peek_csv_blank[OF a] peek_csv_blank[OF b] by simp
qed

lemma filter_name_distinct:
  "distinct (map name ecs) \<Longrightarrow> c \<in> set ecs \<Longrightarrow> filter (\<lambda>c'. name c' = name c) ecs = [c]"
proof (induction ecs)
  case Nil
  then show ?case by simp
next
  case (Cons e ecs)
  show ?case
  proof (cases "e = c")
    case True
    have "name c \<notin> name ` set ecs" using Cons.prems(1) True by simp
    then have "\<forall>c'\<in>set ecs. name c' \<noteq> name c" by (metis imageI)
    then have "filter (\<lambda>c'. name c' = name c) ecs = []" by (simp add: filter_empty_conv)
    with True show ?thesis by simp
  next
    case False
    with Cons.prems have "c \<in> set ecs" "name e \<noteq> name c" by auto
    with Cons show ?thesis by simp
  qed
qed

lemma last_filter_name:
  "h \<in> name ` set ecs \<Longrightarrow>
     name (last (filter (\<lambda>c. name c = h) ecs)) = h \<and> last (filter (\<lambda>c. name c = h) ecs) \<in> set ecs"
proof -
  assume "h \<in> name ` set ecs"
  then have ne: "filter (\<lambda>c. name c = h) ecs \<noteq> []" by (auto simp: filter_empty_conv)
  from last_in_set[OF ne] show ?thesis by auto
qed

text \<open>
  Claim C4. Let \<open>peek_csv\<close> get past the blank check and the dialect sniffing, and let the
  reader give a header row. With \<open>existing_columns\<close> supplied: if some header (a blank
  header cell counts under its placeholder name) is not the name of an existing column,
  \<open>peek_csv\<close> raises \<open>TableDefinitionMismatchException\<close>; otherwise it returns, for each
  header in the file's order, the existing column of that name (the last one, should the
  existing schema repeat a name). Every returned column is an existing column, the
  names of the returned columns are the headers, and when the headers are the existing
  names in another order, the result is the existing columns reordered. The rows after
  the header (\<open>rest\<close>) do not occur in the result: no value is sampled and no type is
  inferred.
\<close>

theorem peek_csv_existing_columns:
  assumes "\<not> list_all isspace_char (take 2048 (drop (pos s) (content s)))"
    and "fst (sniff_csv csv (s\<lparr>pos := 0\<rparr>) 8192) = Inr dialect"
    and "reader csv dialect (content s) = Inr header_row # rest"
  shows "((\<exists>h\<in>set (headers_of header_row). h \<notin> name ` set ecs) \<longrightarrow>
            peek_csv csv s (Some ecs) = (Inl TableDefinitionMismatchException, s\<lparr>pos := 0\<rparr>))
       \<and> ((\<forall>h\<in>set (headers_of header_row). h \<in> name ` set ecs) \<longrightarrow>
            (\<exists>cols. peek_csv csv s (Some ecs) = (Inr (dialect, cols), s\<lparr>pos := 0\<rparr>)
               \<and> cols = map (\<lambda>h. last (filter (\<lambda>c. name c = h) ecs)) (headers_of header_row)
               \<and> map name cols = headers_of header_row
               \<and> set cols \<subseteq> set ecs
               \<and> (distinct (map name ecs) \<and> mset (headers_of header_row) = mset (map name ecs)
                    \<longrightarrow> mset cols = mset ecs)))"
proof -
  let ?hs = "headers_of header_row"
  let ?f = "\<lambda>h. last (filter (\<lambda>c. name c = h) ecs)"
  have fst_eq: "fst (peek_csv csv s (Some ecs)) =
      (if \<forall>h\<in>set ?hs. h \<in> name ` set ecs then Inr (dialect, map ?f ?hs)
       else Inl TableDefinitionMismatchException)"
    unfolding peek_csv_fst[OF assms] by (auto simp: existing_loop_eq existing_map_lookup)
  have full: "peek_csv csv s (Some ecs) =
      (if \<forall>h\<in>set ?hs. h \<in> name ` set ecs then Inr (dialect, map ?f ?hs)
       else Inl TableDefinitionMismatchException, s\<lparr>pos := 0\<rparr>)"
    by (simp only: prod_eq_iff fst_conv snd_conv fst_eq peek_csv_snd simp_thms)
  have names: "(\<forall>h\<in>set ?hs. h \<in> name ` set ecs) \<Longrightarrow> map name (map ?f ?hs) = ?hs"
    using last_filter_name[of _ ecs] by (simp add: map_idI)
  have sub: "(\<forall>h\<in>set ?hs. h \<in> name ` set ecs) \<Longrightarrow> set (map ?f ?hs) \<subseteq> set ecs"
    using last_filter_name[of _ ecs] by auto
  have perm: "mset (map ?f ?hs) = mset ecs"
    if d: "distinct (map name ecs)" and m: "mset ?hs = mset (map name ecs)"
  proof -
    have "mset (map ?f ?hs) = image_mset ?f (mset (map name ecs))"
      using m by (metis mset_map)
    also have "\<dots> = image_mset (\<lambda>c. ?f (name c)) (mset ecs)"
      by (simp add: image_mset.compositionality comp_def)
    also have "\<dots> = image_mset (\<lambda>c. c) (mset ecs)"
      by (rule image_mset_cong) (simp add: filter_name_distinct[OF d])
    finally show ?thesis by simp
  qed
  show ?thesis
  proof (intro conjI impI)
    assume "\<exists>h\<in>set ?hs. h \<notin> name ` set ecs"
    then have "\<not> (\<forall>h\<in>set ?hs. h \<in> name ` set ecs)" by blast
    then show "peek_csv csv s (Some ecs) = (Inl TableDefinitionMismatchException, s\<lparr>pos := 0\<rparr>)"
      unfolding full by simp
  next
    assume a: "\<forall>h\<in>set ?hs. h \<in> name ` set ecs"
    have 1: "peek_csv csv s (Some ecs) = (Inr (dialect, map ?f ?hs), s\<lparr>pos := 0\<rparr>)"
      unfolding full using a by simp
    show "\<exists>cols. peek_csv csv s (Some ecs) = (Inr (dialect, cols), s\<lparr>pos := 0\<rparr>)
               \<and> cols = map ?f ?hs
               \<and> map name cols = ?hs
               \<and> set cols \<subseteq> set ecs
               \<and> (distinct (map name ecs) \<and> mset ?hs = mset (map name ecs)
                    \<longrightarrow> mset cols = mset ecs)"
      using 1 names[OF a] sub[OF a] perm by blast
  qed
qed

theorem peek_csv_existing_columns_witness:
  "peek_csv \<lparr>Sniffer_sniff = (\<lambda>sample. Inl csv_Error),
             reader = (\<lambda>dialect text. [Inr [''b'', ''a''], Inr [''x'', ''y'']]),
             reader_tell = (\<lambda>dialect text n. n)\<rparr>
     \<lparr>content = ''b,a'', pos = 0\<rparr>
     (Some [\<lparr>name = ''a'', type' = INTEGER\<rparr>, \<lparr>name = ''b'', type' = TEXT\<rparr>]) =
     (Inr (excel, [\<lparr>name = ''b'', type' = TEXT\<rparr>, \<lparr>name = ''a'', type' = INTEGER\<rparr>]),
      \<lparr>content = ''b,a'', pos = 0\<rparr>)
   \<and> peek_csv \<lparr>Sniffer_sniff = (\<lambda>sample. Inl csv_Error),
             reader = (\<lambda>dialect text. [Inr [''a'', ''b'', ''c'']]),
             reader_tell = (\<lambda>dialect text n. n)\<rparr>
     \<lparr>content = ''a,b,c'', pos = 0\<rparr>
     (Some [\<lparr>name = ''a'', type' = INTEGER\<rparr>, \<lparr>name = ''b'', type' = TEXT\<rparr>]) =
     (Inl TableDefinitionMismatchException, \<lparr>content = ''a,b,c'', pos = 0\<rparr>)"
proof -
  let ?csv1 = "\<lparr>Sniffer_sniff = (\<lambda>sample. Inl csv_Error),
             reader = (\<lambda>dialect text. [Inr [''b'', ''a''], Inr [''x'', ''y'']]),
             reader_tell = (\<lambda>dialect text n. n)\<rparr>"
  let ?csv2 = "\<lparr>Sniffer_sniff = (\<lambda>sample. Inl csv_Error),
             reader = (\<lambda>dialect text. [Inr [''a'', ''b'', ''c'']]),
             reader_tell = (\<lambda>dialect text n. n)\<rparr>"
  let ?s1 = "\<lparr>content = ''b,a'', pos = 0\<rparr>"
  let ?s2 = "\<lparr>content = ''a,b,c'', pos = 0\<rparr>"
  let ?ecs = "[\<lparr>name = ''a'', type' = INTEGER\<rparr>, \<lparr>name = ''b'', type' = TEXT\<rparr>]"
  have hs1: "headers_of [''b'', ''a''] = [''b'', ''a'']" by code_simp
  have hs2: "headers_of [''a'', ''b'', ''c''] = [''a'', ''b'', ''c'']" by code_simp
  have b1: "\<not> list_all isspace_char (take 2048 (drop (pos ?s1) (content ?s1)))"
    by (simp add: isspace_char_def)
  have b2: "\<not> list_all isspace_char (take 2048 (drop (pos ?s2) (content ?s2)))"
    by (simp add: isspace_char_def)
  have d1: "fst (sniff_csv ?csv1 (?s1\<lparr>pos := 0\<rparr>) 8192) = Inr excel"
    by (simp add: sniff_csv_def rewind_def read_def)
  have d2: "fst (sniff_csv ?csv2 (?s2\<lparr>pos := 0\<rparr>) 8192) = Inr excel"
    by (simp add: sniff_csv_def rewind_def read_def)
  have r1: "reader ?csv1 excel (content ?s1) = Inr [''b'', ''a''] # [Inr [''x'', ''y'']]"
    by simp
  have r2: "reader ?csv2 excel (content ?s2) = Inr [''a'', ''b'', ''c''] # []"
    by simp
  show ?thesis
    using peek_csv_existing_columns[OF b1 d1 r1, of ?ecs]
      peek_csv_existing_columns[OF b2 d2 r2, of ?ecs]
    unfolding hs1 hs2 by auto
qed

lemma name_infer_column: "name (infer_column key vals) = key"
  by (simp add: infer_column_def)

lemma names_infer_columns: "map name (infer_columns d) = map fst d"
  by (induction d) (auto simp: infer_columns_def name_infer_column)

lemma length_headers_of: "length (headers_of row) = length row"
  by (cases row) (simp_all add: headers_of_def del: upt_Suc)

lemma nth_headers_of:
  "i < length row \<Longrightarrow> row ! i \<noteq> [] \<Longrightarrow> headers_of row ! i = row ! i"
  by (simp add: headers_of_def del: upt_Suc)

lemma duplicate_headers:
  assumes "i < j" "j < length row" "row ! i = row ! j" "row ! i \<noteq> []"
  shows "\<not> distinct (headers_of row)"
proof -
  have "headers_of row ! i = headers_of row ! j"
    using assms by (simp add: nth_headers_of)
  moreover have "i < length (headers_of row)" "j < length (headers_of row)" "i \<noteq> j"
    using assms by (simp_all add: length_headers_of)
  ultimately show ?thesis
    by (auto simp: distinct_conv_nth)
qed

lemma length_dict_of_zip:
  "length (dict_of (zip hs xs)) \<le> card (set hs)"
proof -
  have "length (dict_of (zip hs xs)) = length (map fst (dict_of (zip hs xs)))" by simp
  also have "\<dots> = card (set (map fst (dict_of (zip hs xs))))"
    by (rule distinct_card[symmetric]) (rule distinct_dict_of)
  also have "\<dots> = card (set (map fst (zip hs xs)))"
    by (simp only: keys_dict_of)
  also have "\<dots> \<le> card (set hs)"
    by (rule card_mono) (auto dest: set_zip_leftD)
  finally show ?thesis .
qed

lemma infer_column_specified:
  "infer_column key vals = \<lparr>name = key, type' = specified_type key vals\<rparr>"
  by (simp add: infer_column_def specified_type_def first_sniffed_def)

lemma sniff_one_two_blank:
  assumes "set vals = {''1'', ''2'', ''''}"
  shows "IntegerConverter_sniff vals"
proof -
  have "set vals = set [''1'', ''2'', '''']" using assms by simp
  then have "IntegerConverter_sniff vals = IntegerConverter_sniff [''1'', ''2'', '''']"
    unfolding IntegerConverter_sniff_def by (rule sniff_and_allow_blanks_cong_set)
  also have "\<dots>" by code_simp
  finally show ?thesis .
qed

text \<open>
  Claim C3. For a fresh table, the loop over the sampled columns gives each column the
  type that the rule of the specification names (\<open>specified_type\<close>): INTEGER for the
  reserved row-id name whatever the values, otherwise the first of INTEGER, FLOAT,
  BOOLEAN, DATE whose sniffer accepts the values, and TEXT when none does. A column
  whose distinct values are \<open>"1"\<close>, \<open>"2"\<close> and \<open>""\<close>, iterated in any order, is INTEGER.
\<close>

theorem infer_column_priority:
  "infer_column key vals = \<lparr>name = key, type' = specified_type key vals\<rparr>
   \<and> infer_columns as_dict =
       map (\<lambda>(key, vals). \<lparr>name = key, type' = specified_type key vals\<rparr>) as_dict
   \<and> type' (infer_column ''csvbase_row_id'' vals) = INTEGER
   \<and> (set vals = {''1'', ''2'', ''''} \<longrightarrow> type' (infer_column key vals) = INTEGER)"
  by (auto simp: infer_column_specified infer_columns_def specified_type_def
      first_sniffed_def sniff_one_two_blank)

theorem infer_column_priority_witness:
  "infer_column ''n'' [''2'', '''', ''1''] = \<lparr>name = ''n'', type' = INTEGER\<rparr>"
proof -
  let ?vs = "[''2'', '''', ''1'']"
  have h: "set ?vs = {''1'', ''2'', ''''}" by auto
  from infer_column_priority[of "''n''" ?vs "[]"]
  have a: "infer_column ''n'' ?vs = \<lparr>name = ''n'', type' = specified_type ''n'' ?vs\<rparr>"
    and b: "set ?vs = {''1'', ''2'', ''''} \<longrightarrow> type' (infer_column ''n'' ?vs) = INTEGER"
    by blast+
  from b h have "type' (infer_column ''n'' ?vs) = INTEGER" by blast
  with a show ?thesis by simp
qed

text \<open>
  Claim C10. Let a fresh-table upload get past the blank check and the dialect sniffing,
  let the reader give a header row that holds the same non-blank name at two positions,
  and let the sampled data rows be read without an exception. Then \<open>peek_csv\<close> raises
  nothing: it returns columns whose names are pairwise different and are headers of the
  file, and there are strictly fewer columns than header cells.
\<close>

theorem peek_csv_duplicate_headers:
  assumes "\<not> list_all isspace_char (take 2048 (drop (pos s) (content s)))"
    and "fst (sniff_csv csv (s\<lparr>pos := 0\<rparr>) 8192) = Inr dialect"
    and "reader csv dialect (content s) = Inr header_row # rest"
    and "first_rows 1000 rest = Inr rows"
    and "i < j" and "j < length header_row"
    and "header_row ! i = header_row ! j" and "header_row ! i \<noteq> []"
  shows "\<exists>cols. peek_csv csv s None = (Inr (dialect, cols), s\<lparr>pos := 0\<rparr>)
           \<and> distinct (map name cols)
           \<and> set (map name cols) \<subseteq> set (headers_of header_row)
           \<and> length cols < length header_row"
proof -
  let ?d = "dict_of (zip (headers_of header_row) (map py_set (zip_star rows)))"
  let ?cols = "infer_columns ?d"
  have "fst (peek_csv csv s None) = Inr (dialect, ?cols)"
    unfolding peek_csv_fst[OF assms(1-3)] using assms(4) by simp
  then have 1: "peek_csv csv s None = (Inr (dialect, ?cols), s\<lparr>pos := 0\<rparr>)"
    by (simp only: prod_eq_iff fst_conv snd_conv peek_csv_snd simp_thms)
  have 2: "distinct (map name ?cols)"
    by (simp only: names_infer_columns distinct_dict_of)
  have "set (map fst ?d) \<subseteq> set (headers_of header_row)"
    unfolding keys_dict_of by (auto dest: set_zip_leftD)
  then have 3: "set (map name ?cols) \<subseteq> set (headers_of header_row)"
    by (simp only: names_infer_columns)
  have "card (set (headers_of header_row)) < length (headers_of header_row)"
    using duplicate_headers[OF assms(5-8)] card_length[of "headers_of header_row"]
      card_distinct[of "headers_of header_row"] by linarith
  moreover have "length ?cols = length ?d" by (simp add: infer_columns_def)
  ultimately have 4: "length ?cols < length header_row"
    using length_dict_of_zip[of "headers_of header_row" "map py_set (zip_star rows)"]
    by (simp add: length_headers_of)
  from 1 2 3 4 show ?thesis by blast
qed

theorem peek_csv_duplicate_headers_witness:
  "\<exists>cols. peek_csv \<lparr>Sniffer_sniff = (\<lambda>sample. Inl csv_Error),
             reader = (\<lambda>dialect text. [Inr [''a'', ''a''], Inr [''1'', ''x'']]),
             reader_tell = (\<lambda>dialect text n. n)\<rparr>
          \<lparr>content = ''a,a'', pos = 0\<rparr> None =
            (Inr (excel, cols), \<lparr>content = ''a,a'', pos = 0\<rparr>\<lparr>pos := 0\<rparr>)
     \<and> distinct (map name cols)
     \<and> set (map name cols) \<subseteq> set (headers_of [''a'', ''a''])
     \<and> length cols < length [''a'', ''a'']"
proof -
  let ?csv = "\<lparr>Sniffer_sniff = (\<lambda>sample. Inl csv_Error),
             reader = (\<lambda>dialect text. [Inr [''a'', ''a''], Inr [''1'', ''x'']]),
             reader_tell = (\<lambda>dialect text n. n)\<rparr>"
  let ?s = "\<lparr>content = ''a,a'', pos = 0\<rparr>"
  have b: "\<not> list_all isspace_char (take 2048 (drop (pos ?s) (content ?s)))"
    by (simp add: isspace_char_def)
  have d: "fst (sniff_csv ?csv (?s\<lparr>pos := 0\<rparr>) 8192) = Inr excel"
    by (simp add: sniff_csv_def rewind_def read_def)
  have r: "reader ?csv excel (content ?s) = Inr [''a'', ''a''] # [Inr [''1'', ''x'']]"
    by simp
  have f: "first_rows 1000 [Inr [''1'', ''x'']] = Inr [[''1'', ''x'']]"
    by code_simp
  have i: "(0::nat) < 1" and j: "1 < length [''a'', ''a'']"
    and e: "[''a'', ''a''] ! 0 = [''a'', ''a''] ! 1" and n: "[''a'', ''a''] ! 0 \<noteq> []"
    by simp_all
  show ?thesis
    by (rule peek_csv_duplicate_headers[OF b d r f i j e n])
qed

text \<open>
  Claim C6. After \<open>byte_buf_to_str_buf\<close>, \<open>sniff_csv\<close> and \<open>peek_csv\<close> the stream is at
  position 0, whatever the call returned or raised: for every stream and every starting
  position, every detector, every \<open>csv\<close> module (whose sniffer and reader may raise
  anything) and every \<open>existing_columns\<close>.
\<close>

theorem rewind_invariant:
  "pos (snd (byte_buf_to_str_buf detector getreader byte_buf)) = 0
   \<and> pos (snd (sniff_csv csv csv_buf sample_size_hint)) = 0
   \<and> pos (snd (peek_csv csv csv_buf existing_columns)) = 0"
  by (simp add: byte_buf_to_str_buf_pos peek_csv_pos sniff_csv_def rewind_pos)

section \<open>Properties of \<open>value_objs.py\<close>\<close>

text \<open>
  Claim C8, as the code has it. Constructing a \<open>KeySet\<close> never fails: whatever the
  columns, the values, the operator and the size, the constructor returns a \<open>KeySet\<close>
  holding exactly these, with size 10 when none is given.
\<close>

theorem new_KeySet_total:
  "\<exists>k. new_KeySet cs vs operator sz = Inr k \<and> columns k = cs \<and> values' k = vs
       \<and> op k = operator \<and> size' k = (case sz of None \<Rightarrow> 10 | Some n \<Rightarrow> n)"
  by (simp add: new_KeySet_def)

text \<open>
  The claim as stated fails: one column, no value and size 0 are accepted.
\<close>

theorem new_KeySet_arity_counterexample:
  "new_KeySet [ROW_ID_COLUMN] [] greater_than (Some 0) =
     Inr \<lparr>columns = [ROW_ID_COLUMN], values' = [], op = greater_than, size' = 0\<rparr>
   \<and> length ([] :: PythonType list) \<noteq> length [ROW_ID_COLUMN] \<and> (0::int) \<le> 0"
  by (simp add: new_KeySet_def)

text \<open>
  Claim C9 at an input where it fails: the exact count is present and is 0, the
  estimate is 5, and \<open>best\<close> returns the estimate.
\<close>

theorem best_exact_zero: "best \<lparr>exact = Some 0, approx = 5\<rparr> = 5"
  by (simp add: best_def)

end
